theory Spec2Isabelle
  imports Complex_Main "HOL-Library.List_Lexorder"
begin

section \<open>Python values\<close>

text \<open>
  A Python \<open>str\<close> is a sequence of Unicode code points, so \<open>len\<close> is the length of
  the list and slicing is positional.  Error messages and file names are plain
  \<^typ>\<open>string\<close>s.
\<close>

type_synonym pystr = "nat list"

definition py_str :: "string \<Rightarrow> pystr" where
  "py_str s = map of_char s"

text \<open>The values that travel through the pipeline as dictionaries and JSON documents.
  A finite \<open>float\<close> is the rational number it denotes.  A \<open>dict\<close> keeps its keys in
  insertion order; \<open>dict_get\<close> is \<open>d.get(k)\<close>.\<close>

datatype pyval =
    PNone
  | PBool bool
  | PInt int
  | PFloat rat
  | PStr pystr
  | PList "pyval list"
  | PDict "(pystr \<times> pyval) list"

type_synonym pydict = "(pystr \<times> pyval) list"

datatype error =
    ValueError string
  | KeyError string
  | TypeError
  | AttributeError
  | IndexError string
  | OverflowError string
  | FileNotFoundError string
  | OSError string
  | UnicodeEncodeError
  | UnicodeDecodeError
  | RuntimeError string
  | AssertionError
  | JSONDecodeError

definition dict_get :: "pydict \<Rightarrow> string \<Rightarrow> pyval option" where
  "dict_get d k = map_of d (py_str k)"

definition dict_get_default :: "pydict \<Rightarrow> string \<Rightarrow> pyval \<Rightarrow> pyval" where
  "dict_get_default d k dflt = (case dict_get d k of None \<Rightarrow> dflt | Some v \<Rightarrow> v)"

definition dict_item :: "pydict \<Rightarrow> string \<Rightarrow> error + pyval" where
  "dict_item d k = (case dict_get d k of None \<Rightarrow> Inl (KeyError k) | Some v \<Rightarrow> Inr v)"

text \<open>Truth value of an object, as \<open>not x\<close> and \<open>if x\<close> test it.\<close>

fun py_truthy :: "pyval \<Rightarrow> bool" where
  "py_truthy PNone = False"
| "py_truthy (PBool b) = b"
| "py_truthy (PInt n) = (n \<noteq> 0)"
| "py_truthy (PFloat x) = (x \<noteq> 0)"
| "py_truthy (PStr s) = (s \<noteq> [])"
| "py_truthy (PList xs) = (xs \<noteq> [])"
| "py_truthy (PDict d) = (d \<noteq> [])"

fun py_len :: "pyval \<Rightarrow> error + nat" where
  "py_len (PStr s) = Inr (length s)"
| "py_len (PList xs) = Inr (length xs)"
| "py_len (PDict d) = Inr (length d)"
| "py_len _ = Inl TypeError"

subsection \<open>Strings: \<open>strip\<close> and slicing\<close>

text \<open>\<open>str.strip()\<close> without arguments removes the code points for which
  \<open>str.isspace()\<close> holds from both ends.\<close>

definition is_space :: "nat \<Rightarrow> bool" where
  "is_space c \<longleftrightarrow>
     (0x09 \<le> c \<and> c \<le> 0x0D) \<or> (0x1C \<le> c \<and> c \<le> 0x20) \<or> c = 0x85 \<or> c = 0xA0 \<or>
     c = 0x1680 \<or> (0x2000 \<le> c \<and> c \<le> 0x200A) \<or> c = 0x2028 \<or> c = 0x2029 \<or>
     c = 0x202F \<or> c = 0x205F \<or> c = 0x3000"

definition py_strip :: "pystr \<Rightarrow> pystr" where
  "py_strip s = rev (dropWhile is_space (rev (dropWhile is_space s)))"

text \<open>\<open>xs[i:j]\<close>: a negative bound counts from the end, and both bounds are clamped
  to the sequence.\<close>

definition slice_bound :: "nat \<Rightarrow> int \<Rightarrow> nat" where
  "slice_bound n i = (if i < 0 then nat (max (int n + i) 0) else min (nat i) n)"

definition py_slice :: "'a list \<Rightarrow> int \<Rightarrow> int \<Rightarrow> 'a list" where
  "py_slice xs i j =
     (let lo = slice_bound (length xs) i; hi = slice_bound (length xs) j
      in take (hi - lo) (drop lo xs))"

subsection \<open>Double precision: \<open>int * 0.1\<close>\<close>

text \<open>
  \<open>chunk_size * 0.1\<close> converts the integer to a double and multiplies it by the double
  nearest to one tenth, \<open>3602879701896397 / 2 ^ 55\<close>; both steps round to 53 significant
  bits, ties to even.  A double is a rational number, and the comparison of an \<open>int\<close>
  with a \<open>float\<close> is exact, so the model computes with \<^typ>\<open>rat\<close>.
\<close>

fun bit_length :: "nat \<Rightarrow> nat" where
  "bit_length n = (if n = 0 then 0 else Suc (bit_length (n div 2)))"

declare bit_length.simps [simp del]

definition round53 :: "nat \<Rightarrow> nat" where
  "round53 p =
     (let s = bit_length p - 53; q = p div 2 ^ s; r = p mod 2 ^ s
      in if 2 ^ s < 2 * r \<or> (2 * r = 2 ^ s \<and> odd q) then (q + 1) * 2 ^ s else q * 2 ^ s)"

definition float_of_int :: "int \<Rightarrow> error + int" where
  "float_of_int n =
     (let a = round53 (nat \<bar>n\<bar>)
      in if 2 ^ 1024 \<le> a then Inl (OverflowError ''int too large to convert to float'')
         else Inr (sgn n * int a))"

definition float_mul_tenth :: "int \<Rightarrow> rat" where
  "float_mul_tenth x =
     of_int (sgn x * int (round53 (nat \<bar>x\<bar> * 3602879701896397))) / 2 ^ 55"

definition int_mul_tenth :: "int \<Rightarrow> error + rat" where
  "int_mul_tenth n =
     (case float_of_int n of Inl e \<Rightarrow> Inl e | Inr x \<Rightarrow> Inr (float_mul_tenth x))"

section \<open>Text chunker (\<open>ragvix/index/chunker.py\<close>)\<close>

text \<open>The dictionary literal \<open>chunk_data\<close> of \<open>chunk_text\<close>, for the window that
  starts at \<open>i\<close> when \<open>n\<close> chunks have been kept.\<close>

definition chunk_data :: "pystr \<Rightarrow> pyval \<Rightarrow> pyval \<Rightarrow> pystr \<Rightarrow> nat \<Rightarrow> int \<Rightarrow> pyval" where
  "chunk_data chunk arxiv_id title section n i =
     PDict [(py_str ''text'', PStr chunk),
            (py_str ''metadata'', PDict
              [(py_str ''arxiv_id'', arxiv_id),
               (py_str ''title'', title),
               (py_str ''section'', PStr section),
               (py_str ''chunk_index'', PInt (int n)),
               (py_str ''char_start'', PInt i),
               (py_str ''char_end'', PInt (i + int (length chunk))),
               (py_str ''chunk_size'', PInt (int (length chunk)))])]"

text \<open>
  The loop \<open>for i in range(0, len(text), step)\<close> with its \<open>break\<close>: the window start
  runs through \<open>0, step, 2 * step, ...\<close> while it is below \<open>len(text)\<close>.  The recursion
  is the loop as written, so that a step that does not advance shows as \<open>None\<close>.
\<close>

partial_function (option) chunk_loop ::
  "pystr \<Rightarrow> int \<Rightarrow> int \<Rightarrow> pyval \<Rightarrow> pyval \<Rightarrow> pystr \<Rightarrow> int \<Rightarrow> pyval list
     \<Rightarrow> (error + pyval list) option" where
  "chunk_loop text chunk_size step arxiv_id title section i chunks =
     (if i < int (length text) then
        (let chunk = py_slice text i (i + chunk_size) in
         case int_mul_tenth chunk_size of
           Inl e \<Rightarrow> Some (Inl e)
         | Inr tenth \<Rightarrow>
             if of_nat (length chunk) < tenth then Some (Inr chunks)
             else chunk_loop text chunk_size step arxiv_id title section (i + step)
                    (chunks @ [chunk_data chunk arxiv_id title section (length chunks) i]))
      else Some (Inr chunks))"

declare chunk_loop.simps [code]

definition chunk_text ::
  "pystr \<Rightarrow> int \<Rightarrow> int \<Rightarrow> pyval \<Rightarrow> pyval \<Rightarrow> pystr \<Rightarrow> (error + pyval list) option" where
  "chunk_text text chunk_size overlap arxiv_id title section =
     (if py_strip text = [] then Some (Inr [])
      else
        let text' = py_strip text;
            step = max (chunk_size - overlap) 1
        in chunk_loop text' chunk_size step arxiv_id title section 0 [])"

text \<open>One iteration of \<open>for paper in papers_metadata\<close>: the chunks the paper adds to
  \<open>all_chunks\<close> (none after \<open>continue\<close>).  \<open>text.strip()\<close> exists on strings only.\<close>

definition whole_abstract :: "pydict \<Rightarrow> pyval \<Rightarrow> nat \<Rightarrow> pyval" where
  "whole_abstract paper abstract n =
     PDict [(py_str ''text'', abstract),
            (py_str ''metadata'', PDict
              [(py_str ''arxiv_id'', dict_get_default paper ''arxiv_id'' (PStr [])),
               (py_str ''title'', dict_get_default paper ''title'' (PStr [])),
               (py_str ''section'', PStr (py_str ''abstract'')),
               (py_str ''chunk_index'', PInt 0),
               (py_str ''char_start'', PInt 0),
               (py_str ''char_end'', PInt (int n)),
               (py_str ''chunk_size'', PInt (int n)),
               (py_str ''authors'', dict_get_default paper ''authors'' (PList [])),
               (py_str ''categories'', dict_get_default paper ''categories'' (PList [])),
               (py_str ''published'', dict_get_default paper ''published'' (PStr []))])]"

definition longer_than :: "bool \<Rightarrow> pyval \<Rightarrow> int \<Rightarrow> error + bool" where
  "longer_than chunk_abstracts abstract chunk_size =
     (if chunk_abstracts
      then (case py_len abstract of Inl e \<Rightarrow> Inl e | Inr n \<Rightarrow> Inr (chunk_size < int n))
      else Inr False)"

definition paper_chunks :: "pydict \<Rightarrow> bool \<Rightarrow> int \<Rightarrow> int \<Rightarrow> (error + pyval list) option" where
  "paper_chunks paper chunk_abstracts chunk_size overlap =
     (case dict_get paper ''abstract'' of
        None \<Rightarrow> Some (Inr [])
      | Some abstract \<Rightarrow>
          if \<not> py_truthy abstract then Some (Inr [])
          else
            (case longer_than chunk_abstracts abstract chunk_size of
               Inl e \<Rightarrow> Some (Inl e)
             | Inr True \<Rightarrow>
                 (case abstract of
                    PStr text \<Rightarrow>
                      chunk_text text chunk_size overlap
                        (dict_get_default paper ''arxiv_id'' (PStr []))
                        (dict_get_default paper ''title'' (PStr []))
                        (py_str ''abstract'')
                  | _ \<Rightarrow> Some (Inl AttributeError))
             | Inr False \<Rightarrow>
                 (case py_len abstract of
                    Inl e \<Rightarrow> Some (Inl e)
                  | Inr n \<Rightarrow> Some (Inr [whole_abstract paper abstract n]))))"

fun papers_loop ::
  "pydict list \<Rightarrow> bool \<Rightarrow> int \<Rightarrow> int \<Rightarrow> pyval list \<Rightarrow> (error + pyval list) option" where
  "papers_loop [] chunk_abstracts chunk_size overlap all_chunks = Some (Inr all_chunks)"
| "papers_loop (paper # papers) chunk_abstracts chunk_size overlap all_chunks =
     (case paper_chunks paper chunk_abstracts chunk_size overlap of
        None \<Rightarrow> None
      | Some (Inl e) \<Rightarrow> Some (Inl e)
      | Some (Inr chunks) \<Rightarrow>
          papers_loop papers chunk_abstracts chunk_size overlap (all_chunks @ chunks))"

definition chunk_papers_from_metadata ::
  "pydict list \<Rightarrow> bool \<Rightarrow> int \<Rightarrow> int \<Rightarrow> (error + pyval list) option" where
  "chunk_papers_from_metadata papers_metadata chunk_abstracts chunk_size overlap =
     papers_loop papers_metadata chunk_abstracts chunk_size overlap []"

text \<open>The record that \<open>chunk_text\<close> builds for its \<open>j\<close>-th window when the step is
  \<open>step\<close>; used to state what the loop returns.\<close>

definition window :: "pystr \<Rightarrow> int \<Rightarrow> int \<Rightarrow> pyval \<Rightarrow> pyval \<Rightarrow> pystr \<Rightarrow> nat \<Rightarrow> pyval" where
  "window text chunk_size step arxiv_id title section j =
     chunk_data (py_slice text (int j * step) (int j * step + chunk_size))
       arxiv_id title section j (int j * step)"


text \<open>The test that the loop of \<open>chunk_text\<close> applies to its \<open>j\<close>-th window: it starts inside
  the text and is not shorter than \<open>tenth\<close>, the value of \<open>chunk_size * 0.1\<close>.\<close>

definition window_kept :: "pystr \<Rightarrow> int \<Rightarrow> int \<Rightarrow> rat \<Rightarrow> nat \<Rightarrow> bool" where
  "window_kept body chunk_size step tenth j \<longleftrightarrow>
     int j * step < int (length body) \<and>
     \<not> of_nat (length (py_slice body (int j * step) (int j * step + chunk_size))) < tenth"

text \<open>Two paper records as the ingestion client writes them, the second without an
  abstract.\<close>

definition sample_paper :: pydict where
  "sample_paper =
     [(py_str ''arxiv_id'', PStr (py_str ''2006.11239v2'')),
      (py_str ''title'', PStr (py_str ''Denoising Diffusion Probabilistic Models'')),
      (py_str ''authors'', PList [PStr (py_str ''Jonathan Ho''), PStr (py_str ''Ajay Jain'')]),
      (py_str ''abstract'', PStr (replicate 500 97)),
      (py_str ''categories'', PList [PStr (py_str ''cs.LG'')]),
      (py_str ''published'', PStr (py_str ''2020-06-19T17:24:44+00:00''))]"

definition sample_paper_without_abstract :: pydict where
  "sample_paper_without_abstract =
     [(py_str ''arxiv_id'', PStr (py_str ''2105.05233v4'')),
      (py_str ''title'', PStr (py_str ''Diffusion Models Beat GANs on Image Synthesis''))]"

section \<open>Retrieval metrics (\<open>ragvix/eval/retrieval_eval.py\<close>)\<close>

text \<open>
  \<open>retrieved_ids[:k]\<close> is \<open>py_slice retrieved_ids 0 k\<close>.  The quotient of two \<open>int\<close>s is
  the double nearest to the exact quotient; the model returns the exact quotient.
\<close>

definition compute_recall_at_k :: "pystr list \<Rightarrow> pystr set \<Rightarrow> int \<Rightarrow> rat" where
  "compute_recall_at_k retrieved_ids relevant_ids k =
     (if relevant_ids = {} then 0
      else
        let retrieved_at_k = set (py_slice retrieved_ids 0 k)
        in of_nat (card (retrieved_at_k \<inter> relevant_ids)) / of_nat (card relevant_ids))"

definition compute_precision_at_k :: "pystr list \<Rightarrow> pystr set \<Rightarrow> int \<Rightarrow> rat" where
  "compute_precision_at_k retrieved_ids relevant_ids k =
     (if py_slice retrieved_ids 0 k = [] then 0
      else
        let retrieved_at_k = set (py_slice retrieved_ids 0 k)
        in of_nat (card (retrieved_at_k \<inter> relevant_ids)) / of_nat (card retrieved_at_k))"

section \<open>Files and the libraries behind the pipeline\<close>

text \<open>
  A file is a text file, read and written as UTF-8, or a binary similarity index holding its
  vectors in insertion order.  A vector of 32-bit floats is a list of rationals.  The paths in
  \<open>locked\<close> can be neither created nor opened for writing.
\<close>

type_synonym path = string

type_synonym vector = "rat list"

datatype file_content = TextFile pystr | IndexFile "vector list"

record filesystem =
  files :: "path \<Rightarrow> file_content option"
  locked :: "path set"

definition path_join :: "path \<Rightarrow> string \<Rightarrow> path" where
  "path_join dir name = dir @ ''/'' @ name"


definition exists_path :: "filesystem \<Rightarrow> path \<Rightarrow> bool" where
  "exists_path fs p \<longleftrightarrow> files fs p \<noteq> None"


text \<open>
  The third-party code is a parameter of the model: the JSON codec
  (\<open>json.dumps(item, ensure_ascii=False)\<close>, \<open>json.dump(config, f, indent=2)\<close>,
  \<open>json.loads\<close>), the sentence-embedding model (its loading, which gives the dimension, and
  \<open>encode(...).astype(float32)\<close>), \<open>faiss.normalize_L2\<close>, the search of a flat index (one
  row of \<open>(score, id)\<close> pairs per query vector), and the arXiv search
  (the results of a category query, newest first).
\<close>

record arxiv_result =
  entry_id :: pystr
  result_title :: pystr
  result_authors :: "pystr list"
  summary :: pystr
  result_categories :: "pystr list"
  pdf_url :: pystr
  published_isoformat :: pystr

record externals =
  json_dumps :: "pyval \<Rightarrow> error + pystr"
  json_dump_indent :: "pyval \<Rightarrow> error + pystr"
  json_loads :: "pystr \<Rightarrow> error + pyval"
  load_model :: "string \<Rightarrow> error + nat"
  encode :: "string \<Rightarrow> pyval list \<Rightarrow> error + vector list"
  normalize_L2 :: "vector \<Rightarrow> vector"
  index_search :: "vector list \<Rightarrow> vector list \<Rightarrow> int \<Rightarrow> error + (rat \<times> int) list list"
  arxiv_search :: "string \<Rightarrow> int \<Rightarrow> error + arxiv_result list"

text \<open>\<open>xs[i]\<close> and \<open>obj[key]\<close> for a string key.\<close>

definition py_index :: "'a list \<Rightarrow> int \<Rightarrow> error + 'a" where
  "py_index xs i =
     (if 0 \<le> i \<and> i < int (length xs) then Inr (xs ! nat i)
      else if i < 0 \<and> - int (length xs) \<le> i then Inr (xs ! nat (int (length xs) + i))
      else Inl (IndexError ''list index out of range''))"

fun py_getitem :: "pyval \<Rightarrow> string \<Rightarrow> error + pyval" where
  "py_getitem (PDict d) k = dict_item d k"
| "py_getitem _ k = Inl TypeError"

fun items_of :: "pyval list \<Rightarrow> string \<Rightarrow> error + pyval list" where
  "items_of [] k = Inr []"
| "items_of (x # xs) k =
     (case py_getitem x k of
        Inl e \<Rightarrow> Inl e
      | Inr v \<Rightarrow> (case items_of xs k of Inl e \<Rightarrow> Inl e | Inr vs \<Rightarrow> Inr (v # vs)))"

section \<open>I/O utilities (\<open>ragvix/utils/io.py\<close>)\<close>

text \<open>
  Text written with \<open>encoding="utf-8"\<close> must not contain a surrogate code point.  A text
  file is read with universal newlines: \<open>\\n\<close>, \<open>\\r\\n\<close> and \<open>\\r\<close> all end a line and are
  handed over as \<open>\\n\<close>.
\<close>

definition is_surrogate :: "nat \<Rightarrow> bool" where
  "is_surrogate c \<longleftrightarrow> 0xD800 \<le> c \<and> c \<le> 0xDFFF"


fun drop_lf :: "pystr \<Rightarrow> pystr" where
  "drop_lf [] = []"
| "drop_lf (c # cs) = (if c = 10 then cs else c # cs)"

function split_lines :: "pystr \<Rightarrow> pystr \<Rightarrow> pystr list" where
  "split_lines cur [] = (if cur = [] then [] else [cur])"
| "split_lines cur (c # cs) =
     (if c = 10 then (cur @ [10]) # split_lines [] cs
      else if c = 13 then (cur @ [10]) # split_lines [] (drop_lf cs)
      else split_lines (cur @ [c]) cs)"
  by pat_completeness auto
termination
proof (relation "measure (\<lambda>(cur, s). length s)")
  fix cur :: pystr and c :: nat and cs :: pystr
  have "length (drop_lf cs) \<le> length cs" by (cases cs) simp_all
  then show "((([] :: pystr), drop_lf cs), (cur, c # cs)) \<in> measure (\<lambda>(cur, s). length s)"
    by simp
qed simp_all




text \<open>\<open>read_jsonl\<close>: every line is stripped, a blank line is skipped, any other line is
  parsed.\<close>

fun parse_lines :: "(pystr \<Rightarrow> error + pyval) \<Rightarrow> pystr list \<Rightarrow> pyval list \<Rightarrow> error + pyval list" where
  "parse_lines loads [] data = Inr data"
| "parse_lines loads (line # lines) data =
     (let line = py_strip line
      in if line \<noteq> [] then
           (case loads line of
              Inl e \<Rightarrow> Inl e
            | Inr v \<Rightarrow> parse_lines loads lines (data @ [v]))
         else parse_lines loads lines data)"

definition read_jsonl :: "(pystr \<Rightarrow> error + pyval) \<Rightarrow> filesystem \<Rightarrow> path \<Rightarrow> error + pyval list" where
  "read_jsonl loads fs filepath =
     (case files fs filepath of
        None \<Rightarrow> Inl (FileNotFoundError filepath)
      | Some (IndexFile vectors) \<Rightarrow> Inl UnicodeDecodeError
      | Some (TextFile content) \<Rightarrow> parse_lines loads (split_lines [] content) [])"


text \<open>What the codec does on a string that needs no escape: the string between double
  quotes.  Any other value is outside this fragment.\<close>

definition plain_char :: "nat \<Rightarrow> bool" where
  "plain_char c \<longleftrightarrow> 32 \<le> c \<and> c \<noteq> 34 \<and> c \<noteq> 92 \<and> \<not> is_surrogate c"

fun plain_string_dumps :: "pyval \<Rightarrow> error + pystr" where
  "plain_string_dumps (PStr s) =
     (if list_all plain_char s then Inr ([34] @ s @ [34]) else Inl TypeError)"
| "plain_string_dumps _ = Inl TypeError"

fun plain_string_loads :: "pystr \<Rightarrow> error + pyval" where
  "plain_string_loads [] = Inl JSONDecodeError"
| "plain_string_loads (c # cs) =
     (if c = 34 \<and> cs \<noteq> [] \<and> last cs = 34 \<and> list_all plain_char (butlast cs)
      then Inr (PStr (butlast cs)) else Inl JSONDecodeError)"


section \<open>Configuration (\<open>ragvix/config.py\<close>)\<close>

text \<open>The fields of the global \<open>settings\<close> object that the modelled code reads, with their
  defaults.\<close>

record settings_record =
  raw_dir :: path
  interim_dir :: path
  processed_dir :: path
  index_dir :: path
  chunk_size_default :: int
  chunk_overlap_default :: int
  embedding_model :: string

definition settings :: settings_record where
  "settings =
     \<lparr>raw_dir = ''data/raw'', interim_dir = ''data/interim'',
      processed_dir = ''data/processed'', index_dir = ''data/index'',
      chunk_size_default = 1200, chunk_overlap_default = 120,
      embedding_model = ''all-MiniLM-L6-v2''\<rparr>"


section \<open>Vector store (\<open>ragvix/index/faiss_store.py\<close>)\<close>

text \<open>
  The state of a \<open>FAISSStore\<close>.  The flat index is the list of its vectors, so
  \<open>index.ntotal\<close> is the length of that list; \<open>None\<close> is \<open>self.index is None\<close>.  A method
  returns the state it leaves behind together with the exception it raised, if any.
\<close>

record faiss_store =
  model_name :: string
  index :: "vector list option"
  metadata :: "pyval list"
  dimension :: nat


definition FAISSStore :: "externals \<Rightarrow> string \<Rightarrow> error + faiss_store" where
  "FAISSStore ext name =
     (case load_model ext name of
        Inl e \<Rightarrow> Inl e
      | Inr d \<Rightarrow> Inr \<lparr>model_name = name, index = None, metadata = [], dimension = d\<rparr>)"

definition FAISSStore_build_index ::
  "externals \<Rightarrow> faiss_store \<Rightarrow> pyval list \<Rightarrow> faiss_store \<times> error option" where
  "FAISSStore_build_index ext self chunks =
     (if chunks = [] then (self, None)
      else
        case items_of chunks ''text'' of
          Inl e \<Rightarrow> (self, Some e)
        | Inr texts \<Rightarrow>
            (case encode ext (model_name self) texts of
               Inl e \<Rightarrow> (self, Some e)
             | Inr embeddings \<Rightarrow>
                 let self = self\<lparr>index := Some (map (normalize_L2 ext) embeddings)\<rparr>
                 in case items_of chunks ''metadata'' of
                      Inl e \<Rightarrow> (self, Some e)
                    | Inr ms \<Rightarrow> (self\<lparr>metadata := ms\<rparr>, None)))"

fun collect_results :: "pyval list \<Rightarrow> (rat \<times> int) list \<Rightarrow> pyval list \<Rightarrow> error + pyval list" where
  "collect_results ms [] results = Inr results"
| "collect_results ms ((score, idx) # hits) results =
     (if idx \<noteq> - 1 then
        (case py_index ms idx of
           Inl e \<Rightarrow> Inl e
         | Inr m \<Rightarrow>
             collect_results ms hits
               (results @ [PDict [(py_str ''score'', PFloat score), (py_str ''metadata'', m)]]))
      else collect_results ms hits results)"

definition FAISSStore_search ::
  "externals \<Rightarrow> faiss_store \<Rightarrow> pystr \<Rightarrow> int \<Rightarrow> error + pyval list" where
  "FAISSStore_search ext self query k =
     (case index self of
        None \<Rightarrow> Inl (ValueError ''Index not built. Call build_index() first.'')
      | Some vectors \<Rightarrow>
          (case encode ext (model_name self) [PStr query] of
             Inl e \<Rightarrow> Inl e
           | Inr query_embedding \<Rightarrow>
               (case index_search ext vectors (map (normalize_L2 ext) query_embedding) k of
                  Inl e \<Rightarrow> Inl e
                | Inr [] \<Rightarrow> Inl (IndexError ''index 0 is out of bounds for axis 0 with size 0'')
                | Inr (row # rows) \<Rightarrow> collect_results (metadata self) row [])))"



text \<open>\<open>f.read()\<close> of a text file, which \<open>json.load\<close> parses.\<close>

definition read_text :: "pystr \<Rightarrow> pystr" where
  "read_text content = concat (split_lines [] content)"

definition FAISSStore_load ::
  "externals \<Rightarrow> filesystem \<Rightarrow> faiss_store \<Rightarrow> path \<Rightarrow> faiss_store \<times> error option" where
  "FAISSStore_load ext fs self dir =
     (case files fs (path_join dir ''config.json'') of
        None \<Rightarrow> (self, Some (FileNotFoundError (path_join dir ''config.json'')))
      | Some (IndexFile vectors) \<Rightarrow> (self, Some UnicodeDecodeError)
      | Some (TextFile content) \<Rightarrow>
          (case json_loads ext (read_text content) of
             Inl e \<Rightarrow> (self, Some e)
           | Inr config \<Rightarrow>
               (case py_getitem config ''model_name'' of
                  Inl e \<Rightarrow> (self, Some e)
                | Inr name \<Rightarrow>
                    (case files fs (path_join dir ''faiss.index'') of
                       Some (IndexFile vectors) \<Rightarrow>
                         let self = self\<lparr>index := Some vectors\<rparr>
                         in (case read_jsonl (json_loads ext) fs (path_join dir ''meta.jsonl'') of
                               Inl e \<Rightarrow> (self, Some e)
                             | Inr ms \<Rightarrow> (self\<lparr>metadata := ms\<rparr>, None))
                     | _ \<Rightarrow> (self, Some (RuntimeError (path_join dir ''faiss.index'')))))))"

definition load_index :: "externals \<Rightarrow> filesystem \<Rightarrow> path option \<Rightarrow> error + faiss_store" where
  "load_index ext fs dir =
     (let dir = (case dir of None \<Rightarrow> index_dir settings | Some p \<Rightarrow> p)
      in case FAISSStore ext (embedding_model settings) of
           Inl e \<Rightarrow> Inl e
         | Inr store \<Rightarrow>
             (case FAISSStore_load ext fs store dir of
                (store, Some e) \<Rightarrow> Inl e
              | (store, None) \<Rightarrow> Inr store))"

section \<open>Retriever (\<open>ragvix/retriever/retriever.py\<close>)\<close>

record retriever =
  index_path :: path
  store :: "faiss_store option"


text \<open>The messages of the logger of this module: "Loaded index with \<open>n\<close> documents".\<close>

datatype retriever_log = Info_loaded_index nat

definition Retriever_load_index ::
  "externals \<Rightarrow> filesystem \<Rightarrow> retriever \<Rightarrow> retriever \<times> retriever_log list \<times> error option" where
  "Retriever_load_index ext fs self =
     (if \<not> exists_path fs (path_join (index_path self) ''config.json'')
      then (self, [], Some (FileNotFoundError (''No index found at '' @ index_path self)))
      else
        case load_index ext fs (Some (index_path self)) of
          Inl e \<Rightarrow> (self, [], Some e)
        | Inr loaded \<Rightarrow>
            (self\<lparr>store := Some loaded\<rparr>, [Info_loaded_index (length (metadata loaded))], None))"

text \<open>\<open>f"{x:.4f}"\<close>: the decimal expansion with four digits after the point, rounded to
  nearest, ties to even.\<close>

fun decimal :: "nat \<Rightarrow> pystr" where
  "decimal n = (if n < 10 then [48 + n] else decimal (n div 10) @ [48 + n mod 10])"

declare decimal.simps [simp del]

definition round_half_even :: "rat \<Rightarrow> nat" where
  "round_half_even x =
     (let f = \<lfloor>x\<rfloor>; d = x - of_int f
      in nat (if 1 / 2 < d \<or> (d = 1 / 2 \<and> odd f) then f + 1 else f))"

definition format_4f :: "rat \<Rightarrow> pystr" where
  "format_4f x =
     (let n = round_half_even (\<bar>x\<bar> * 10000);
          frac = decimal (n mod 10000)
      in (if x < 0 then [45] else []) @ decimal (n div 10000) @ [46]
         @ replicate (4 - length frac) 48 @ frac)"

fun py_get :: "pyval \<Rightarrow> string \<Rightarrow> pyval \<Rightarrow> error + pyval" where
  "py_get (PDict d) k dflt = Inr (dict_get_default d k dflt)"
| "py_get _ k dflt = Inl AttributeError"

fun format_score :: "pyval \<Rightarrow> error + pyval" where
  "format_score (PFloat x) = Inr (PStr (format_4f x))"
| "format_score (PInt n) = Inr (PStr (format_4f (of_int n)))"
| "format_score (PBool b) = Inr (PStr (format_4f (if b then 1 else 0)))"
| "format_score (PStr s) = Inl (ValueError ''Unknown format code f for object of type str'')"
| "format_score _ = Inl TypeError"

definition dict_set :: "pydict \<Rightarrow> string \<Rightarrow> pyval \<Rightarrow> pydict" where
  "dict_set d k v =
     (if py_str k \<in> fst ` set d then map (\<lambda>(k', v'). if k' = py_str k then (k', v) else (k', v')) d
      else d @ [(py_str k, v)])"

text \<open>The body of \<open>for result in results\<close> in \<open>Retriever.search\<close>.\<close>

definition enhance :: "pyval \<Rightarrow> error + pyval" where
  "enhance result =
     (case py_getitem result ''metadata'' of
        Inl e \<Rightarrow> Inl e
      | Inr meta \<Rightarrow>
          (case py_get meta ''title'' (PStr (py_str ''Unknown Title'')) of
             Inl e \<Rightarrow> Inl e
           | Inr title \<Rightarrow>
               (case py_get meta ''arxiv_id'' (PStr (py_str ''unknown'')) of
                  Inl e \<Rightarrow> Inl e
                | Inr arxiv_id \<Rightarrow>
                    (case py_get meta ''section'' (PStr (py_str ''unknown'')) of
                       Inl e \<Rightarrow> Inl e
                     | Inr sec \<Rightarrow>
                         (case py_getitem result ''score'' of
                            Inl e \<Rightarrow> Inl e
                          | Inr score \<Rightarrow>
                              (case format_score score of
                                 Inl e \<Rightarrow> Inl e
                               | Inr shown \<Rightarrow>
                                   (case result of
                                      PDict d \<Rightarrow>
                                        Inr (PDict (dict_set d ''formatted''
                                          (PDict [(py_str ''title'', title),
                                                  (py_str ''arxiv_id'', arxiv_id),
                                                  (py_str ''section'', sec),
                                                  (py_str ''score'', shown)])))
                                    | _ \<Rightarrow> Inl TypeError)))))))"

fun enhance_all :: "pyval list \<Rightarrow> error + pyval list" where
  "enhance_all [] = Inr []"
| "enhance_all (result # results) =
     (case enhance result of
        Inl e \<Rightarrow> Inl e
      | Inr r \<Rightarrow> (case enhance_all results of Inl e \<Rightarrow> Inl e | Inr rs \<Rightarrow> Inr (r # rs)))"

text \<open>\<open>Retriever.search\<close> on a retriever that holds a store: no file is read.\<close>

definition search_loaded :: "externals \<Rightarrow> faiss_store \<Rightarrow> pystr \<Rightarrow> int \<Rightarrow> error + pyval list" where
  "search_loaded ext loaded query k =
     (case FAISSStore_search ext loaded query k of
        Inl e \<Rightarrow> Inl e
      | Inr results \<Rightarrow> enhance_all results)"

definition Retriever_search ::
  "externals \<Rightarrow> filesystem \<Rightarrow> retriever \<Rightarrow> pystr \<Rightarrow> int
     \<Rightarrow> retriever \<times> retriever_log list \<times> (error + pyval list)" where
  "Retriever_search ext fs self query k =
     (case store self of
        None \<Rightarrow>
          (case Retriever_load_index ext fs self of
             (self, lg, Some e) \<Rightarrow> (self, lg, Inl e)
           | (self, lg, None) \<Rightarrow>
               (case store self of
                  None \<Rightarrow> (self, lg, Inl AttributeError)
                | Some loaded \<Rightarrow> (self, lg, search_loaded ext loaded query k)))
      | Some loaded \<Rightarrow> (self, [], search_loaded ext loaded query k))"





section \<open>Metadata ingestion (\<open>ragvix/ingest/arxiv_client.py\<close>)\<close>















section \<open>A small installation\<close>

text \<open>
  Concrete stand-ins for the libraries, used to run the model on examples: an embedding
  model of dimension 1 that maps the query \<open>diffusion models\<close> to \<open>[1]\<close> and every other text
  to \<open>[-1]\<close>; the exhaustive inner-product search of a flat index, best score first, padded
  with the id \<open>-1\<close>; the JSON codec on the documents of the index directory below and on plain
  strings; and an arXiv category without papers.
\<close>

definition sample_metadata :: pyval where
  \<open>sample_metadata =
     PDict [(py_str ''arxiv_id'', PStr (py_str ''2006.11239v2'')),
            (py_str ''title'', PStr (py_str ''Denoising Diffusion Probabilistic Models'')),
            (py_str ''section'', PStr (py_str ''abstract''))]\<close>

definition sample_metadata_line :: pystr where
  \<open>sample_metadata_line =
     py_str ''{"arxiv_id": "2006.11239v2", "title": "Denoising Diffusion Probabilistic Models", "section": "abstract"}''\<close>

definition sample_config :: "nat \<Rightarrow> pyval" where
  \<open>sample_config n =
     PDict [(py_str ''model_name'', PStr (py_str ''all-MiniLM-L6-v2'')),
            (py_str ''dimension'', PInt 1),
            (py_str ''num_vectors'', PInt (int n))]\<close>

definition sample_config_text :: "nat \<Rightarrow> pystr" where
  \<open>sample_config_text n =
     py_str ''{'' @ [10] @ py_str ''  "model_name": "all-MiniLM-L6-v2",'' @ [10]
     @ py_str ''  "dimension": 1,'' @ [10]
     @ py_str ''  "num_vectors": '' @ decimal n @ [10] @ py_str ''}''\<close>

definition sample_dumps :: "pyval \<Rightarrow> error + pystr" where
  "sample_dumps v = (if v = sample_metadata then Inr sample_metadata_line else plain_string_dumps v)"

definition sample_dump_indent :: "pyval \<Rightarrow> error + pystr" where
  "sample_dump_indent v =
     (if v = sample_config 1 then Inr (sample_config_text 1)
      else if v = sample_config 2 then Inr (sample_config_text 2)
      else Inl TypeError)"

definition sample_loads :: "pystr \<Rightarrow> error + pyval" where
  "sample_loads s =
     (if s = sample_metadata_line then Inr sample_metadata
      else if s = sample_config_text 1 then Inr (sample_config 1)
      else if s = sample_config_text 2 then Inr (sample_config 2)
      else plain_string_loads s)"

definition sample_encode :: "string \<Rightarrow> pyval list \<Rightarrow> error + vector list" where
  "sample_encode name texts =
     Inr (map (\<lambda>t. if t = PStr (py_str ''diffusion models'') then [1] else [- 1]) texts)"

definition inner_product :: "vector \<Rightarrow> vector \<Rightarrow> rat" where
  "inner_product u v = sum_list (map2 (*) u v)"

definition flat_ip_search ::
  "vector list \<Rightarrow> vector list \<Rightarrow> int \<Rightarrow> error + (rat \<times> int) list list" where
  "flat_ip_search vectors queries k =
     (if k \<le> 0 then Inl AssertionError
      else
        Inr (map (\<lambda>q.
               let scored = map (\<lambda>i. (inner_product q (vectors ! i), int i)) [0..<length vectors];
                   ranked = sort_key (\<lambda>(score, i). - score) scored
               in take (nat k) ranked
                  @ replicate (nat k - length vectors)
                      (- 340282346638528859811704183484516925440, - 1))
             queries))"

definition sample_externals :: externals where
  "sample_externals =
     \<lparr>json_dumps = sample_dumps, json_dump_indent = sample_dump_indent,
      json_loads = sample_loads, load_model = (\<lambda>name. Inr 1), encode = sample_encode,
      normalize_L2 = (\<lambda>v. v), index_search = flat_ip_search,
      arxiv_search = (\<lambda>category max_results. Inr [])\<rparr>"







section \<open>Properties\<close>

lemma chunk_loop_exit:
  "\<not> i < int (length text) \<Longrightarrow>
     chunk_loop text chunk_size step arxiv_id title section i chunks = Some (Inr chunks)"
  by (subst chunk_loop.simps) simp

lemma chunk_loop_raise:
  "i < int (length text) \<Longrightarrow> int_mul_tenth chunk_size = Inl e \<Longrightarrow>
     chunk_loop text chunk_size step arxiv_id title section i chunks = Some (Inl e)"
  by (subst chunk_loop.simps) simp

lemma chunk_loop_break:
  "i < int (length text) \<Longrightarrow> int_mul_tenth chunk_size = Inr tenth \<Longrightarrow>
   of_nat (length (py_slice text i (i + chunk_size))) < tenth \<Longrightarrow>
     chunk_loop text chunk_size step arxiv_id title section i chunks = Some (Inr chunks)"
  by (subst chunk_loop.simps) simp

lemma chunk_loop_keep:
  "i < int (length text) \<Longrightarrow> int_mul_tenth chunk_size = Inr tenth \<Longrightarrow>
   \<not> of_nat (length (py_slice text i (i + chunk_size))) < tenth \<Longrightarrow>
     chunk_loop text chunk_size step arxiv_id title section i chunks =
     chunk_loop text chunk_size step arxiv_id title section (i + step)
       (chunks @ [chunk_data (py_slice text i (i + chunk_size)) arxiv_id title section
                    (length chunks) i])"
  by (subst chunk_loop.simps) (simp add: Let_def)

lemma chunk_loop_returns:
  assumes "1 \<le> step"
  shows "\<exists>r. chunk_loop text chunk_size step arxiv_id title section i chunks = Some r"
proof (induction "nat (int (length text) - i)" arbitrary: i chunks rule: less_induct)
  case less
  show ?case
  proof (cases "i < int (length text)")
    case False
    then show ?thesis by (simp add: chunk_loop_exit)
  next
    case inside: True
    show ?thesis
    proof (cases "int_mul_tenth chunk_size")
      case (Inl e)
      with inside show ?thesis by (simp add: chunk_loop_raise)
    next
      case (Inr tenth)
      show ?thesis
      proof (cases "of_nat (length (py_slice text i (i + chunk_size))) < tenth")
        case True
        with inside Inr show ?thesis by (simp add: chunk_loop_break)
      next
        case False
        from inside assms have "nat (int (length text) - (i + step)) < nat (int (length text) - i)"
          by linarith
        from less [OF this] inside Inr False show ?thesis
          by (simp add: chunk_loop_keep)
      qed
    qed
  qed
qed

text \<open>Without the clamp the model of the loop can fail to return: with a step of 0 a window
  that is kept is visited forever.\<close>

lemma chunk_loop_needs_progress:
  assumes run: "chunk_loop doc chunk_size step arxiv_id title sec i chunks = Some r"
  shows "\<not> (step = 0 \<and> i < int (length doc) \<and>
            (\<exists>tenth. int_mul_tenth chunk_size = Inr tenth \<and>
               \<not> of_nat (length (py_slice doc i (i + chunk_size))) < tenth))"
proof (rule chunk_loop.raw_induct
    [where P = "\<lambda>doc chunk_size step arxiv_id title sec i chunks r.
       \<not> (step = 0 \<and> i < int (length doc) \<and>
            (\<exists>tenth. int_mul_tenth chunk_size = Inr tenth \<and>
               \<not> of_nat (length (py_slice doc i (i + chunk_size))) < tenth))", OF _ run])
  fix f doc chunk_size step arxiv_id title sec i chunks r
  assume ih: "\<And>doc chunk_size step arxiv_id title sec i chunks r.
          f doc chunk_size step arxiv_id title sec i chunks = Some r \<Longrightarrow>
          \<not> (step = 0 \<and> i < int (length doc) \<and>
            (\<exists>tenth. int_mul_tenth chunk_size = Inr tenth \<and>
               \<not> of_nat (length (py_slice doc i (i + chunk_size))) < tenth))"
    and body: "(if i < int (length doc)
      then let chunk = py_slice doc i (i + chunk_size)
           in case int_mul_tenth chunk_size of Inl e \<Rightarrow> Some (Inl e)
              | Inr tenth \<Rightarrow>
                  if of_nat (length chunk) < tenth
                  then Some (Inr chunks)
                  else f doc chunk_size step arxiv_id title sec (i + step)
                        (chunks @ [chunk_data chunk arxiv_id title sec (length chunks) i])
      else Some (Inr chunks)) = Some r"
  show "\<not> (step = 0 \<and> i < int (length doc) \<and>
            (\<exists>tenth. int_mul_tenth chunk_size = Inr tenth \<and>
               \<not> of_nat (length (py_slice doc i (i + chunk_size))) < tenth))"
  proof
    assume stuck: "step = 0 \<and> i < int (length doc) \<and>
            (\<exists>tenth. int_mul_tenth chunk_size = Inr tenth \<and>
               \<not> of_nat (length (py_slice doc i (i + chunk_size))) < tenth)"
    then obtain tenth where t: "int_mul_tenth chunk_size = Inr tenth"
        "\<not> of_nat (length (py_slice doc i (i + chunk_size))) < tenth"
      by blast
    from body stuck t
    have "f doc chunk_size step arxiv_id title sec i
            (chunks @ [chunk_data (py_slice doc i (i + chunk_size)) arxiv_id title sec
                        (length chunks) i]) = Some r"
      by (simp add: Let_def)
    from ih [OF this] stuck show False by blast
  qed
qed

lemma chunk_loop_without_progress:
  "i < int (length doc) \<Longrightarrow> int_mul_tenth chunk_size = Inr tenth \<Longrightarrow>
   \<not> of_nat (length (py_slice doc i (i + chunk_size))) < tenth \<Longrightarrow>
     chunk_loop doc chunk_size 0 arxiv_id title sec i chunks = None"
  using chunk_loop_needs_progress [of doc chunk_size 0 arxiv_id title sec i chunks]
  by (cases "chunk_loop doc chunk_size 0 arxiv_id title sec i chunks") auto

lemma chunk_text_returns:
  "\<exists>r. chunk_text text chunk_size overlap arxiv_id title section = Some r"
  by (simp add: chunk_text_def Let_def chunk_loop_returns)

lemma chunk_loop_windows:
  assumes "1 \<le> step"
  shows "chunk_loop text chunk_size step arxiv_id title section i chunks = Some (Inr res) \<Longrightarrow>
         i = int (length chunks) * step \<Longrightarrow>
         (\<forall>j<length chunks. chunks ! j = window text chunk_size step arxiv_id title section j) \<Longrightarrow>
         (\<forall>j<length res. res ! j = window text chunk_size step arxiv_id title section j)"
proof (induction "nat (int (length text) - i)" arbitrary: i chunks rule: less_induct)
  case less
  show ?case
  proof (cases "i < int (length text)")
    case False
    with less.prems show ?thesis by (simp add: chunk_loop_exit)
  next
    case inside: True
    show ?thesis
    proof (cases "int_mul_tenth chunk_size")
      case (Inl e)
      with inside less.prems(1) show ?thesis by (simp add: chunk_loop_raise)
    next
      case (Inr tenth)
      show ?thesis
      proof (cases "of_nat (length (py_slice text i (i + chunk_size))) < tenth")
        case True
        with inside Inr less.prems show ?thesis by (simp add: chunk_loop_break)
      next
        case False
        let ?new = "chunk_data (py_slice text i (i + chunk_size)) arxiv_id title section
                      (length chunks) i"
        from inside assms have dec: "nat (int (length text) - (i + step)) < nat (int (length text) - i)"
          by linarith
        from inside Inr False less.prems(1)
        have run: "chunk_loop text chunk_size step arxiv_id title section (i + step)
                     (chunks @ [?new]) = Some (Inr res)"
          by (simp add: chunk_loop_keep)
        have pos: "i + step = int (length (chunks @ [?new])) * step"
          using less.prems(2) by (simp add: algebra_simps)
        have new: "?new = window text chunk_size step arxiv_id title section (length chunks)"
          using less.prems(2) by (simp add: window_def)
        have inv: "\<forall>j<length (chunks @ [?new]).
                     (chunks @ [?new]) ! j = window text chunk_size step arxiv_id title section j"
          using less.prems(3) new by (auto simp: nth_append less_Suc_eq)
        from less.hyps [OF dec run pos inv] show ?thesis .
      qed
    qed
  qed
qed

lemma take_min_length: "take (min n (length ys)) ys = take n ys"
  by (simp add: min_def)

lemma py_slice_window:
  "0 \<le> i \<Longrightarrow> 0 \<le> n \<Longrightarrow> py_slice xs i (i + n) = take (nat n) (drop (nat i) xs)"
proof -
  assume i: "0 \<le> i" and n: "0 \<le> n"
  let ?L = "length xs"
  have lo: "slice_bound ?L i = min (nat i) ?L"
    using i by (simp add: slice_bound_def)
  have hi: "slice_bound ?L (i + n) = min (nat i + nat n) ?L"
    using i n by (simp add: slice_bound_def nat_add_distrib)
  show ?thesis
  proof (cases "nat i \<le> ?L")
    case True
    then have "min (nat i + nat n) ?L - min (nat i) ?L = min (nat n) (length (drop (nat i) xs))"
      by (auto simp add: min_def)
    with True show ?thesis
      by (simp add: py_slice_def lo hi min_absorb1 Let_def take_min_length del: length_drop)
  next
    case False
    then show ?thesis by (simp add: py_slice_def lo hi)
  qed
qed

lemma py_strip_replicate:
  "\<not> is_space c \<Longrightarrow> py_strip (replicate n c) = replicate n c"
  by (cases n) (simp_all add: py_strip_def dropWhile_eq_self_iff 
       del: replicate.simps replicate_Suc)

lemma tenth_1200: "int_mul_tenth 1200 = Inr 120"
  by (simp add: int_mul_tenth_def float_of_int_def round53_def float_mul_tenth_def
      bit_length.simps)

lemma not_space_A: "\<not> is_space 65"
  by (simp add: is_space_def)

lemma chunk_text_2000:
  "chunk_text (replicate 2000 65) 1200 120 arxiv_id title section =
     Some (Inr [chunk_data (replicate 1200 65) arxiv_id title section 0 0,
                chunk_data (replicate 920 65) arxiv_id title section 1 1080])"
proof -
  let ?t = "replicate 2000 (65::nat)"
  let ?c0 = "chunk_data (replicate 1200 65) arxiv_id title section 0 0"
  let ?c1 = "chunk_data (replicate 920 65) arxiv_id title section 1 1080"
  have w0: "py_slice ?t 0 (0 + 1200) = replicate 1200 65"
    by (subst py_slice_window) simp_all
  have w1: "py_slice ?t 1080 (1080 + 1200) = replicate 920 65"
    by (subst py_slice_window) simp_all
  have s0: "chunk_loop ?t 1200 1080 arxiv_id title section 0 [] =
            chunk_loop ?t 1200 1080 arxiv_id title section (0 + 1080) ([] @ [?c0])"
    by (subst chunk_loop_keep [OF _ tenth_1200]) (simp_all add: w0 [simplified])
  have s1: "chunk_loop ?t 1200 1080 arxiv_id title section 1080 [?c0] =
            chunk_loop ?t 1200 1080 arxiv_id title section (1080 + 1080) ([?c0] @ [?c1])"
    by (subst chunk_loop_keep [OF _ tenth_1200]) (simp_all add: w1 [simplified])
  have s2: "chunk_loop ?t 1200 1080 arxiv_id title section 2160 [?c0, ?c1] =
            Some (Inr [?c0, ?c1])"
    by (rule chunk_loop_exit) simp
  have "py_strip ?t = ?t"
    by (rule py_strip_replicate [OF not_space_A])
  then have "chunk_text ?t 1200 120 arxiv_id title section =
             chunk_loop ?t 1200 1080 arxiv_id title section 0 []"
    by (simp add: chunk_text_def)
  with s0 s1 s2 show ?thesis by simp
qed

lemma chunk_text_windows:
  assumes "chunk_text text chunk_size overlap arxiv_id title section = Some (Inr chunks)"
    and "j < length chunks"
  shows "chunks ! j =
           window (py_strip text) chunk_size (max (chunk_size - overlap) 1) arxiv_id title section j"
proof (cases "py_strip text = []")
  case True
  with assms show ?thesis by (simp add: chunk_text_def)
next
  case False
  with assms(1)
  have "chunk_loop (py_strip text) chunk_size (max (chunk_size - overlap) 1) arxiv_id title
          section 0 [] = Some (Inr chunks)"
    by (simp add: chunk_text_def Let_def)
  from chunk_loop_windows [OF _ this] assms(2) show ?thesis by simp
qed

text \<open>
  Claim C1.  Chunking \<open>"A" * 2000\<close> with \<open>chunk_size = 1200\<close> and \<open>overlap = 120\<close>
  returns exactly two records: chunk 0 with \<open>char_start 0\<close>, \<open>char_end 1200\<close>, length
  1200, and chunk 1 with \<open>char_start 1080\<close>, \<open>char_end 2000\<close>, length 920.  In general,
  whatever list \<open>chunk_text\<close> returns, its \<open>j\<close>-th record has \<open>chunk_index j\<close>, starts
  at \<open>i = j * max (chunk_size - overlap) 1\<close> and holds the slice \<open>[i : i + chunk_size]\<close> of
  the stripped text, with \<open>char_end\<close> and \<open>chunk_size\<close> taken from the length of that slice.
\<close>

theorem chunk_text_sliding_windows:
  "chunk_text (replicate 2000 65) 1200 120 arxiv_id title section =
     Some (Inr
       [PDict [(py_str ''text'', PStr (replicate 1200 65)),
               (py_str ''metadata'', PDict
                 [(py_str ''arxiv_id'', arxiv_id),
                  (py_str ''title'', title),
                  (py_str ''section'', PStr section),
                  (py_str ''chunk_index'', PInt 0),
                  (py_str ''char_start'', PInt 0),
                  (py_str ''char_end'', PInt 1200),
                  (py_str ''chunk_size'', PInt 1200)])],
        PDict [(py_str ''text'', PStr (replicate 920 65)),
               (py_str ''metadata'', PDict
                 [(py_str ''arxiv_id'', arxiv_id),
                  (py_str ''title'', title),
                  (py_str ''section'', PStr section),
                  (py_str ''chunk_index'', PInt 1),
                  (py_str ''char_start'', PInt 1080),
                  (py_str ''char_end'', PInt 2000),
                  (py_str ''chunk_size'', PInt 920)])]])
   \<and> (\<forall>text chunk_size overlap chunks j.
          chunk_text text chunk_size overlap arxiv_id title section = Some (Inr chunks) \<longrightarrow>
          j < length chunks \<longrightarrow>
          (let step = max (chunk_size - overlap) 1;
               i = int j * step;
               chunk = py_slice (py_strip text) i (i + chunk_size)
           in chunks ! j =
                PDict [(py_str ''text'', PStr chunk),
                       (py_str ''metadata'', PDict
                         [(py_str ''arxiv_id'', arxiv_id),
                          (py_str ''title'', title),
                          (py_str ''section'', PStr section),
                          (py_str ''chunk_index'', PInt (int j)),
                          (py_str ''char_start'', PInt i),
                          (py_str ''char_end'', PInt (i + int (length chunk))),
                          (py_str ''chunk_size'', PInt (int (length chunk)))])]))"
proof (intro conjI allI impI)
  show "chunk_text (replicate 2000 65) 1200 120 arxiv_id title section =
     Some (Inr
       [PDict [(py_str ''text'', PStr (replicate 1200 65)),
               (py_str ''metadata'', PDict
                 [(py_str ''arxiv_id'', arxiv_id),
                  (py_str ''title'', title),
                  (py_str ''section'', PStr section),
                  (py_str ''chunk_index'', PInt 0),
                  (py_str ''char_start'', PInt 0),
                  (py_str ''char_end'', PInt 1200),
                  (py_str ''chunk_size'', PInt 1200)])],
        PDict [(py_str ''text'', PStr (replicate 920 65)),
               (py_str ''metadata'', PDict
                 [(py_str ''arxiv_id'', arxiv_id),
                  (py_str ''title'', title),
                  (py_str ''section'', PStr section),
                  (py_str ''chunk_index'', PInt 1),
                  (py_str ''char_start'', PInt 1080),
                  (py_str ''char_end'', PInt 2000),
                  (py_str ''chunk_size'', PInt 920)])]])"
    by (simp add: chunk_text_2000 chunk_data_def)
next
  fix doc chunk_size overlap chunks j
  assume "chunk_text doc chunk_size overlap arxiv_id title section = Some (Inr chunks)"
    and "j < length chunks"
  from chunk_text_windows [OF this]
  show "let step = max (chunk_size - overlap) 1;
            i = int j * step;
            chunk = py_slice (py_strip doc) i (i + chunk_size)
        in chunks ! j =
             PDict [(py_str ''text'', PStr chunk),
                    (py_str ''metadata'', PDict
                      [(py_str ''arxiv_id'', arxiv_id),
                       (py_str ''title'', title),
                       (py_str ''section'', PStr section),
                       (py_str ''chunk_index'', PInt (int j)),
                       (py_str ''char_start'', PInt i),
                       (py_str ''char_end'', PInt (i + int (length chunk))),
                       (py_str ''chunk_size'', PInt (int (length chunk)))])]"
    by (simp add: window_def chunk_data_def Let_def)
qed

text \<open>The general part of C1 at the text \<open>"A" * 2000\<close> and its second record.\<close>

theorem chunk_text_sliding_windows_witness:
  "chunk_text (replicate 2000 65) 1200 120 (PStr []) (PStr []) (py_str ''main'') =
     Some (Inr [chunk_data (replicate 1200 65) (PStr []) (PStr []) (py_str ''main'') 0 0,
                chunk_data (replicate 920 65) (PStr []) (PStr []) (py_str ''main'') 1 1080])
   \<and> (1::nat) < length [chunk_data (replicate 1200 65) (PStr []) (PStr []) (py_str ''main'') 0 0,
                chunk_data (replicate 920 65) (PStr []) (PStr []) (py_str ''main'') 1 1080]
   \<and> py_slice (py_strip (replicate 2000 65)) (1 * max (1200 - 120) 1)
         (1 * max (1200 - 120) 1 + 1200) = replicate 920 65"
proof -
  let ?cs = "[chunk_data (replicate 1200 65) (PStr []) (PStr []) (py_str ''main'') 0 0,
              chunk_data (replicate 920 65) (PStr []) (PStr []) (py_str ''main'') 1 1080]"
  note claim = chunk_text_sliding_windows [of "PStr []" "PStr []" "py_str ''main''"]
  from claim have run: "chunk_text (replicate 2000 65) 1200 120 (PStr []) (PStr [])
                          (py_str ''main'') = Some (Inr ?cs)"
    by (simp add: chunk_data_def)
  have len: "(1::nat) < length ?cs" by simp
  from claim run len
  have "let step = max (1200 - 120) 1; i = int 1 * step;
            chunk = py_slice (py_strip (replicate 2000 65)) i (i + 1200)
        in ?cs ! 1 = chunk_data chunk (PStr []) (PStr []) (py_str ''main'') 1 i"
    unfolding chunk_data_def by blast
  then have "py_slice (py_strip (replicate 2000 65)) (1 * max (1200 - 120) 1)
               (1 * max (1200 - 120) 1 + 1200) = replicate 920 65"
    by (simp add: chunk_data_def Let_def)
  with run len show ?thesis by blast
qed

lemma chunk_text_1205:
  assumes len: "length (py_strip doc) = 1205"
  shows "chunk_text doc 1200 120 arxiv_id title section =
           Some (Inr [chunk_data (take 1200 (py_strip doc)) arxiv_id title section 0 0,
                      chunk_data (drop 1080 (py_strip doc)) arxiv_id title section 1 1080])"
proof -
  let ?t = "py_strip doc"
  let ?c0 = "chunk_data (take 1200 ?t) arxiv_id title section 0 0"
  let ?c1 = "chunk_data (drop 1080 ?t) arxiv_id title section 1 1080"
  have w0: "py_slice ?t 0 (0 + 1200) = take 1200 ?t"
    by (subst py_slice_window) simp_all
  have w1: "py_slice ?t 1080 (1080 + 1200) = drop 1080 ?t"
    by (subst py_slice_window) (simp_all add: len)
  have s0: "chunk_loop ?t 1200 1080 arxiv_id title section 0 [] =
            chunk_loop ?t 1200 1080 arxiv_id title section (0 + 1080) ([] @ [?c0])"
    by (subst chunk_loop_keep [OF _ tenth_1200]) (simp_all add: w0 [simplified] len)
  have s1: "chunk_loop ?t 1200 1080 arxiv_id title section 1080 [?c0] =
            chunk_loop ?t 1200 1080 arxiv_id title section (1080 + 1080) ([?c0] @ [?c1])"
    by (subst chunk_loop_keep [OF _ tenth_1200]) (simp_all add: w1 [simplified] len)
  have s2: "chunk_loop ?t 1200 1080 arxiv_id title section 2160 [?c0, ?c1] =
            Some (Inr [?c0, ?c1])"
    by (rule chunk_loop_exit) (simp add: len)
  from len have "?t \<noteq> []" by auto
  then have "chunk_text doc 1200 120 arxiv_id title section =
             chunk_loop ?t 1200 1080 arxiv_id title section 0 []"
    by (simp add: chunk_text_def)
  with s0 s1 s2 show ?thesis by simp
qed

lemma chunk_text_1085:
  assumes len: "length (py_strip doc) = 1085"
  shows "chunk_text doc 1200 120 arxiv_id title section =
           Some (Inr [chunk_data (py_strip doc) arxiv_id title section 0 0])"
proof -
  let ?t = "py_strip doc"
  let ?c0 = "chunk_data ?t arxiv_id title section 0 0"
  have w0: "py_slice ?t 0 (0 + 1200) = ?t"
    by (subst py_slice_window) (simp_all add: len)
  have w1: "py_slice ?t 1080 (1080 + 1200) = drop 1080 ?t"
    by (subst py_slice_window) (simp_all add: len)
  have s0: "chunk_loop ?t 1200 1080 arxiv_id title section 0 [] =
            chunk_loop ?t 1200 1080 arxiv_id title section (0 + 1080) ([] @ [?c0])"
    by (subst chunk_loop_keep [OF _ tenth_1200]) (simp_all add: w0 [simplified] len)
  have s1: "chunk_loop ?t 1200 1080 arxiv_id title section 1080 [?c0] = Some (Inr [?c0])"
    by (rule chunk_loop_break [OF _ tenth_1200]) (simp_all add: w1 [simplified] len)
  from len have "?t \<noteq> []" by auto
  then have "chunk_text doc 1200 120 arxiv_id title section =
             chunk_loop ?t 1200 1080 arxiv_id title section 0 []"
    by (simp add: chunk_text_def)
  with s0 s1 show ?thesis by simp
qed

lemma chunk_loop_stops:
  assumes "1 \<le> step" and tenth: "int_mul_tenth chunk_size = Inr tenth"
  shows "chunk_loop body chunk_size step arxiv_id title sec i chunks = Some (Inr res) \<Longrightarrow>
         i = int (length chunks) * step \<Longrightarrow>
         (\<forall>j<length chunks. window_kept body chunk_size step tenth j) \<Longrightarrow>
         (\<forall>j<length res. window_kept body chunk_size step tenth j) \<and>
         \<not> window_kept body chunk_size step tenth (length res)"
proof (induction "nat (int (length body) - i)" arbitrary: i chunks rule: less_induct)
  case less
  show ?case
  proof (cases "i < int (length body)")
    case False
    with less.prems have "res = chunks" by (simp add: chunk_loop_exit)
    with False less.prems show ?thesis by (simp add: window_kept_def)
  next
    case inside: True
    show ?thesis
    proof (cases "of_nat (length (py_slice body i (i + chunk_size))) < tenth")
      case True
      with inside tenth less.prems have "res = chunks" by (simp add: chunk_loop_break)
      with True less.prems show ?thesis by (simp add: window_kept_def)
    next
      case False
      let ?new = "chunk_data (py_slice body i (i + chunk_size)) arxiv_id title sec
                    (length chunks) i"
      from inside assms have dec: "nat (int (length body) - (i + step)) < nat (int (length body) - i)"
        by linarith
      from inside tenth False less.prems(1)
      have run: "chunk_loop body chunk_size step arxiv_id title sec (i + step)
                   (chunks @ [?new]) = Some (Inr res)"
        by (simp add: chunk_loop_keep)
      have pos: "i + step = int (length (chunks @ [?new])) * step"
        using less.prems(2) by (simp add: algebra_simps)
      have new: "window_kept body chunk_size step tenth (length chunks)"
        using less.prems(2) inside False by (simp add: window_kept_def)
      have inv: "\<forall>j<length (chunks @ [?new]). window_kept body chunk_size step tenth j"
        using less.prems(3) new by (auto simp: less_Suc_eq)
      from less.hyps [OF dec run pos inv] show ?thesis .
    qed
  qed
qed

lemma chunk_text_stops:
  assumes "chunk_text doc chunk_size overlap arxiv_id title sec = Some (Inr chunks)"
    and "int_mul_tenth chunk_size = Inr tenth"
  shows "(\<forall>j<length chunks.
            window_kept (py_strip doc) chunk_size (max (chunk_size - overlap) 1) tenth j) \<and>
         \<not> window_kept (py_strip doc) chunk_size (max (chunk_size - overlap) 1) tenth (length chunks)"
proof (cases "py_strip doc = []")
  case True
  with assms show ?thesis by (simp add: chunk_text_def window_kept_def)
next
  case False
  with assms(1)
  have "chunk_loop (py_strip doc) chunk_size (max (chunk_size - overlap) 1) arxiv_id title
          sec 0 [] = Some (Inr chunks)"
    by (simp add: chunk_text_def Let_def)
  from chunk_loop_stops [OF _ assms(2) this] show ?thesis by simp
qed

lemma tail_window_cases:
  "int_mul_tenth 1200 = Inr 120
   \<and> (length (py_strip doc) = 1205 \<longrightarrow>
        length (py_slice (py_strip doc) 1080 (1080 + 1200)) = 125 \<and>
        chunk_text doc 1200 120 arxiv_id title section =
          Some (Inr
            [PDict [(py_str ''text'', PStr (take 1200 (py_strip doc))),
                    (py_str ''metadata'', PDict
                      [(py_str ''arxiv_id'', arxiv_id),
                       (py_str ''title'', title),
                       (py_str ''section'', PStr section),
                       (py_str ''chunk_index'', PInt 0),
                       (py_str ''char_start'', PInt 0),
                       (py_str ''char_end'', PInt 1200),
                       (py_str ''chunk_size'', PInt 1200)])],
             PDict [(py_str ''text'', PStr (drop 1080 (py_strip doc))),
                    (py_str ''metadata'', PDict
                      [(py_str ''arxiv_id'', arxiv_id),
                       (py_str ''title'', title),
                       (py_str ''section'', PStr section),
                       (py_str ''chunk_index'', PInt 1),
                       (py_str ''char_start'', PInt 1080),
                       (py_str ''char_end'', PInt 1205),
                       (py_str ''chunk_size'', PInt 125)])]]))
   \<and> (length (py_strip doc') = 1085 \<longrightarrow>
        length (py_slice (py_strip doc') 1080 (1080 + 1200)) = 5 \<and>
        chunk_text doc' 1200 120 arxiv_id title section =
          Some (Inr
            [PDict [(py_str ''text'', PStr (py_strip doc')),
                    (py_str ''metadata'', PDict
                      [(py_str ''arxiv_id'', arxiv_id),
                       (py_str ''title'', title),
                       (py_str ''section'', PStr section),
                       (py_str ''chunk_index'', PInt 0),
                       (py_str ''char_start'', PInt 0),
                       (py_str ''char_end'', PInt 1085),
                       (py_str ''chunk_size'', PInt 1085)])]]))"
proof (intro conjI impI)
  show "int_mul_tenth 1200 = Inr 120" by (rule tenth_1200)
next
  assume len: "length (py_strip doc) = 1205"
  have "py_slice (py_strip doc) 1080 (1080 + 1200) = drop 1080 (py_strip doc)"
    by (subst py_slice_window) (simp_all add: len)
  then show "length (py_slice (py_strip doc) 1080 (1080 + 1200)) = 125"
    by (simp add: len)
  from chunk_text_1205 [OF len, of arxiv_id title "section"]
  show "chunk_text doc 1200 120 arxiv_id title section =
          Some (Inr
            [PDict [(py_str ''text'', PStr (take 1200 (py_strip doc))),
                    (py_str ''metadata'', PDict
                      [(py_str ''arxiv_id'', arxiv_id),
                       (py_str ''title'', title),
                       (py_str ''section'', PStr section),
                       (py_str ''chunk_index'', PInt 0),
                       (py_str ''char_start'', PInt 0),
                       (py_str ''char_end'', PInt 1200),
                       (py_str ''chunk_size'', PInt 1200)])],
             PDict [(py_str ''text'', PStr (drop 1080 (py_strip doc))),
                    (py_str ''metadata'', PDict
                      [(py_str ''arxiv_id'', arxiv_id),
                       (py_str ''title'', title),
                       (py_str ''section'', PStr section),
                       (py_str ''chunk_index'', PInt 1),
                       (py_str ''char_start'', PInt 1080),
                       (py_str ''char_end'', PInt 1205),
                       (py_str ''chunk_size'', PInt 125)])]])"
    by (simp add: chunk_data_def len)
next
  assume len: "length (py_strip doc') = 1085"
  have "py_slice (py_strip doc') 1080 (1080 + 1200) = drop 1080 (py_strip doc')"
    by (subst py_slice_window) (simp_all add: len)
  then show "length (py_slice (py_strip doc') 1080 (1080 + 1200)) = 5"
    by (simp add: len)
  from chunk_text_1085 [OF len, of arxiv_id title "section"]
  show "chunk_text doc' 1200 120 arxiv_id title section =
          Some (Inr
            [PDict [(py_str ''text'', PStr (py_strip doc')),
                    (py_str ''metadata'', PDict
                      [(py_str ''arxiv_id'', arxiv_id),
                       (py_str ''title'', title),
                       (py_str ''section'', PStr section),
                       (py_str ''chunk_index'', PInt 0),
                       (py_str ''char_start'', PInt 0),
                       (py_str ''char_end'', PInt 1085),
                       (py_str ''chunk_size'', PInt 1085)])]])"
    by (simp add: chunk_data_def len)
qed

text \<open>
  Claim C2, amended.  \<open>chunk_text\<close> keeps the windows at \<open>0, step, 2 * step, ...\<close> up to the
  first window that starts at or after the end of the stripped text or is shorter than
  \<open>chunk_size * 0.1\<close>: every returned window starts inside the text and is not shorter than
  that threshold, and a window that would follow the returned ones inside the text is shorter
  than it (it is dropped, and chunking stops there).  With \<open>chunk_size = 1200\<close> and
  \<open>overlap = 120\<close> the threshold is 120 and the second window starts at 1080.  For a text
  whose stripped length is 1205 that window has 125 characters, so it is kept and two records
  are returned.  A text of stripped length 1085 has a second window of 5 characters, and
  exactly one record is returned.
\<close>

theorem tail_window_threshold:
  "int_mul_tenth 1200 = Inr 120
   \<and> (length (py_strip doc) = 1205 \<longrightarrow>
        length (py_slice (py_strip doc) 1080 (1080 + 1200)) = 125 \<and>
        chunk_text doc 1200 120 arxiv_id title section =
          Some (Inr
            [PDict [(py_str ''text'', PStr (take 1200 (py_strip doc))),
                    (py_str ''metadata'', PDict
                      [(py_str ''arxiv_id'', arxiv_id),
                       (py_str ''title'', title),
                       (py_str ''section'', PStr section),
                       (py_str ''chunk_index'', PInt 0),
                       (py_str ''char_start'', PInt 0),
                       (py_str ''char_end'', PInt 1200),
                       (py_str ''chunk_size'', PInt 1200)])],
             PDict [(py_str ''text'', PStr (drop 1080 (py_strip doc))),
                    (py_str ''metadata'', PDict
                      [(py_str ''arxiv_id'', arxiv_id),
                       (py_str ''title'', title),
                       (py_str ''section'', PStr section),
                       (py_str ''chunk_index'', PInt 1),
                       (py_str ''char_start'', PInt 1080),
                       (py_str ''char_end'', PInt 1205),
                       (py_str ''chunk_size'', PInt 125)])]]))
   \<and> (length (py_strip doc') = 1085 \<longrightarrow>
        length (py_slice (py_strip doc') 1080 (1080 + 1200)) = 5 \<and>
        chunk_text doc' 1200 120 arxiv_id title section =
          Some (Inr
            [PDict [(py_str ''text'', PStr (py_strip doc')),
                    (py_str ''metadata'', PDict
                      [(py_str ''arxiv_id'', arxiv_id),
                       (py_str ''title'', title),
                       (py_str ''section'', PStr section),
                       (py_str ''chunk_index'', PInt 0),
                       (py_str ''char_start'', PInt 0),
                       (py_str ''char_end'', PInt 1085),
                       (py_str ''chunk_size'', PInt 1085)])]]))
   \<and> (\<forall>text chunk_size overlap chunks tenth.
        chunk_text text chunk_size overlap arxiv_id title section = Some (Inr chunks) \<longrightarrow>
        int_mul_tenth chunk_size = Inr tenth \<longrightarrow>
        (let step = max (chunk_size - overlap) 1;
             body = py_strip text;
             window_length = (\<lambda>j. length (py_slice body (int j * step) (int j * step + chunk_size)))
         in (\<forall>j<length chunks.
               int j * step < int (length body) \<and> \<not> of_nat (window_length j) < tenth) \<and>
            (int (length chunks) * step < int (length body) \<longrightarrow>
               of_nat (window_length (length chunks)) < tenth)))"
proof -
  note cases = tail_window_cases [of doc arxiv_id title "section" doc']
  have rule: "\<forall>text chunk_size overlap chunks tenth.
          chunk_text text chunk_size overlap arxiv_id title section = Some (Inr chunks) \<longrightarrow>
          int_mul_tenth chunk_size = Inr tenth \<longrightarrow>
          (let step = max (chunk_size - overlap) 1;
               body = py_strip text;
               window_length = (\<lambda>j. length (py_slice body (int j * step) (int j * step + chunk_size)))
           in (\<forall>j<length chunks.
                 int j * step < int (length body) \<and> \<not> of_nat (window_length j) < tenth) \<and>
              (int (length chunks) * step < int (length body) \<longrightarrow>
                 of_nat (window_length (length chunks)) < tenth))"
  proof (intro allI impI)
    fix doc0 chunk_size overlap chunks tenth
    assume "chunk_text doc0 chunk_size overlap arxiv_id title section = Some (Inr chunks)"
      and "int_mul_tenth chunk_size = Inr tenth"
    from chunk_text_stops [OF this]
    show "let step = max (chunk_size - overlap) 1;
              body = py_strip doc0;
              window_length = (\<lambda>j. length (py_slice body (int j * step) (int j * step + chunk_size)))
          in (\<forall>j<length chunks.
                int j * step < int (length body) \<and> \<not> of_nat (window_length j) < tenth) \<and>
             (int (length chunks) * step < int (length body) \<longrightarrow>
                of_nat (window_length (length chunks)) < tenth)"
      by (simp add: window_kept_def Let_def)
  qed
  show ?thesis
    by (rule conjI [OF cases [THEN conjunct1]
          conjI [OF cases [THEN conjunct2, THEN conjunct1]
            conjI [OF cases [THEN conjunct2, THEN conjunct2] rule]]])
qed

text \<open>Both cases of the amended C2 on texts of 1205 and of 1085 letters \<open>A\<close>.\<close>

theorem tail_window_threshold_witness:
  "length (py_strip (replicate 1205 65)) = 1205
   \<and> length (py_strip (replicate 1085 65)) = 1085
   \<and> map_option (map_sum id length)
        (chunk_text (replicate 1205 65) 1200 120 (PStr []) (PStr []) (py_str ''main'')) =
      Some (Inr 2)
   \<and> chunk_text (replicate 1085 65) 1200 120 (PStr []) (PStr []) (py_str ''main'') =
      Some (Inr [chunk_data (replicate 1085 65) (PStr []) (PStr []) (py_str ''main'') 0 0])
   \<and> int_mul_tenth 1200 = Inr 120
   \<and> int (length [chunk_data (replicate 1085 65) (PStr []) (PStr []) (py_str ''main'') 0 0])
        * max (1200 - 120) 1 < int (length (py_strip (replicate 1085 65)))
   \<and> rat_of_nat (length (py_slice (py_strip (replicate 1085 65)) 1080 (1080 + 1200))) < 120"
proof -
  let ?c = "chunk_data (replicate 1085 65) (PStr []) (PStr []) (py_str ''main'') 0 0"
  note claim = tail_window_threshold [of "replicate 1205 65" "PStr []" "PStr []" "py_str ''main''"
      "replicate 1085 65"]
  have s: "py_strip (replicate 1085 65) = replicate 1085 65"
    by (rule py_strip_replicate [OF not_space_A])
  have a: "length (py_strip (replicate 1205 65)) = 1205"
    by (simp add: py_strip_replicate [OF not_space_A])
  have b: "length (py_strip (replicate 1085 65)) = 1085"
    by (simp add: s)
  from claim have t: "int_mul_tenth 1200 = Inr 120"
    by (rule conjunct1)
  from claim [THEN conjunct2, THEN conjunct1] a
  have two: "map_option (map_sum id length)
        (chunk_text (replicate 1205 65) 1200 120 (PStr []) (PStr []) (py_str ''main'')) =
      Some (Inr 2)"
    by simp
  from claim [THEN conjunct2, THEN conjunct2, THEN conjunct1] b
  have one: "chunk_text (replicate 1085 65) 1200 120 (PStr []) (PStr []) (py_str ''main'') =
      Some (Inr [?c])"
    by (simp add: chunk_data_def s)
  have inside: "int (length [?c]) * max (1200 - 120) 1 < int (length (py_strip (replicate 1085 65)))"
    by (simp add: s)
  from claim [THEN conjunct2, THEN conjunct2, THEN conjunct2, rule_format, OF one t]
  have "int (length [?c]) * max (1200 - 120) 1 < int (length (py_strip (replicate 1085 65))) \<longrightarrow>
        rat_of_nat (length (py_slice (py_strip (replicate 1085 65))
          (int (length [?c]) * max (1200 - 120) 1)
          (int (length [?c]) * max (1200 - 120) 1 + 1200))) < 120"
    by (simp add: Let_def)
  with inside
  have short: "rat_of_nat (length (py_slice (py_strip (replicate 1085 65)) 1080 (1080 + 1200))) < 120"
    by simp
  from a b two one t inside short show ?thesis by blast
qed

text \<open>
  Claim C2 as stated fails: for the text \<open>"A" * 1205\<close> the second window \<open>[1080 : 2280]\<close>
  has length 125, not 5, and \<open>chunk_text\<close> returns two records, not one.
\<close>

theorem tail_window_kept_counterexample:
  "map_option (map_sum id length)
     (chunk_text (replicate 1205 65) 1200 120 (PStr []) (PStr []) (py_str ''main'')) =
   Some (Inr 2)
   \<and> length (py_slice (py_strip (replicate 1205 65)) 1080 (1080 + 1200)) = 125
   \<and> int_mul_tenth 1200 = Inr 120"
proof -
  have strip: "py_strip (replicate 1205 65) = replicate 1205 65"
    by (rule py_strip_replicate [OF not_space_A])
  have "length (py_slice (replicate 1205 (65::nat)) 1080 (1080 + 1200)) = 125"
    by (subst py_slice_window) simp_all
  moreover have "length (py_strip (replicate 1205 65)) = 1205"
    by (simp add: strip)
  from chunk_text_1205 [OF this, of "PStr []" "PStr []" "py_str ''main''"]
  have "map_option (map_sum id length)
          (chunk_text (replicate 1205 65) 1200 120 (PStr []) (PStr []) (py_str ''main'')) =
        Some (Inr 2)"
    by simp
  ultimately show ?thesis by (simp add: strip tenth_1200)
qed

text \<open>
  Claim C9.  \<open>chunk_text\<close> returns for every text and all integers \<open>chunk_size\<close> and
  \<open>overlap\<close>, also when \<open>overlap \<ge> chunk_size\<close>: the step is at least 1, so the window
  start reaches the end of the text (lemma \<open>chunk_loop_returns\<close>; with a step of 0 the loop of
  the model does not return, lemma \<open>chunk_loop_without_progress\<close>).  The result is a list of
  records or the \<open>OverflowError\<close> of \<open>chunk_size * 0.1\<close>.
\<close>

theorem chunk_text_terminates:
  "\<exists>result. chunk_text doc chunk_size overlap arxiv_id title section = Some result"
  by (rule chunk_text_returns)

lemma paper_chunks_no_abstract:
  "dict_get paper ''abstract'' = None \<Longrightarrow>
     paper_chunks paper chunk_abstracts chunk_size overlap = Some (Inr [])"
  by (simp add: paper_chunks_def)

lemma papers_loop_skip:
  "paper_chunks paper chunk_abstracts chunk_size overlap = Some (Inr []) \<Longrightarrow>
     papers_loop (before @ paper # after) chunk_abstracts chunk_size overlap all_chunks =
     papers_loop (before @ after) chunk_abstracts chunk_size overlap all_chunks"
  by (induction before arbitrary: all_chunks) (simp_all split: option.splits sum.splits)

text \<open>
  Claim C8.  A paper whose abstract is a string of length 500, chunked with
  \<open>chunk_abstracts = True\<close> and \<open>chunk_size = 1200\<close>, yields exactly one record: the whole
  abstract with \<open>chunk_index 0\<close>, \<open>char_start 0\<close>, \<open>char_end 500\<close>, section
  \<open>"abstract"\<close> and the paper's \<open>authors\<close>, \<open>categories\<close> and \<open>published\<close> entries
  (\<open>paper.get\<close> with its defaults).  A paper without the key \<open>abstract\<close> yields no record,
  alone or anywhere in a batch.
\<close>

theorem abstract_packaging:
  "(dict_get paper ''abstract'' = Some (PStr abstract) \<longrightarrow> length abstract = 500 \<longrightarrow>
      chunk_papers_from_metadata [paper] True 1200 overlap =
        Some (Inr
          [PDict [(py_str ''text'', PStr abstract),
                  (py_str ''metadata'', PDict
                    [(py_str ''arxiv_id'', dict_get_default paper ''arxiv_id'' (PStr [])),
                     (py_str ''title'', dict_get_default paper ''title'' (PStr [])),
                     (py_str ''section'', PStr (py_str ''abstract'')),
                     (py_str ''chunk_index'', PInt 0),
                     (py_str ''char_start'', PInt 0),
                     (py_str ''char_end'', PInt 500),
                     (py_str ''chunk_size'', PInt 500),
                     (py_str ''authors'', dict_get_default paper ''authors'' (PList [])),
                     (py_str ''categories'', dict_get_default paper ''categories'' (PList [])),
                     (py_str ''published'', dict_get_default paper ''published'' (PStr []))])]]))
   \<and> (dict_get bare ''abstract'' = None \<longrightarrow>
        chunk_papers_from_metadata [bare] chunk_abstracts chunk_size overlap' = Some (Inr []) \<and>
        chunk_papers_from_metadata (before @ bare # after) chunk_abstracts chunk_size overlap' =
        chunk_papers_from_metadata (before @ after) chunk_abstracts chunk_size overlap')"
proof (intro conjI impI)
  assume "dict_get paper ''abstract'' = Some (PStr abstract)" and "length abstract = 500"
  then show "chunk_papers_from_metadata [paper] True 1200 overlap =
        Some (Inr
          [PDict [(py_str ''text'', PStr abstract),
                  (py_str ''metadata'', PDict
                    [(py_str ''arxiv_id'', dict_get_default paper ''arxiv_id'' (PStr [])),
                     (py_str ''title'', dict_get_default paper ''title'' (PStr [])),
                     (py_str ''section'', PStr (py_str ''abstract'')),
                     (py_str ''chunk_index'', PInt 0),
                     (py_str ''char_start'', PInt 0),
                     (py_str ''char_end'', PInt 500),
                     (py_str ''chunk_size'', PInt 500),
                     (py_str ''authors'', dict_get_default paper ''authors'' (PList [])),
                     (py_str ''categories'', dict_get_default paper ''categories'' (PList [])),
                     (py_str ''published'', dict_get_default paper ''published'' (PStr []))])]])"
    by (auto simp: chunk_papers_from_metadata_def paper_chunks_def longer_than_def
        whole_abstract_def)
next
  assume none: "dict_get bare ''abstract'' = None"
  then show "chunk_papers_from_metadata [bare] chunk_abstracts chunk_size overlap' = Some (Inr [])"
    by (simp add: chunk_papers_from_metadata_def paper_chunks_no_abstract)
  from none show "chunk_papers_from_metadata (before @ bare # after) chunk_abstracts chunk_size overlap' =
        chunk_papers_from_metadata (before @ after) chunk_abstracts chunk_size overlap'"
    unfolding chunk_papers_from_metadata_def
    by (intro papers_loop_skip paper_chunks_no_abstract)
qed

text \<open>C8 on a concrete paper record and on one without an abstract.\<close>

theorem abstract_packaging_witness:
  "dict_get sample_paper ''abstract'' = Some (PStr (replicate 500 97))
   \<and> length (replicate 500 (97::nat)) = 500
   \<and> dict_get sample_paper_without_abstract ''abstract'' = None
   \<and> chunk_papers_from_metadata [sample_paper] True 1200 120 =
       Some (Inr
          [PDict [(py_str ''text'', PStr (replicate 500 97)),
                  (py_str ''metadata'', PDict
                    [(py_str ''arxiv_id'', PStr (py_str ''2006.11239v2'')),
                     (py_str ''title'', PStr (py_str ''Denoising Diffusion Probabilistic Models'')),
                     (py_str ''section'', PStr (py_str ''abstract'')),
                     (py_str ''chunk_index'', PInt 0),
                     (py_str ''char_start'', PInt 0),
                     (py_str ''char_end'', PInt 500),
                     (py_str ''chunk_size'', PInt 500),
                     (py_str ''authors'', PList [PStr (py_str ''Jonathan Ho''), PStr (py_str ''Ajay Jain'')]),
                     (py_str ''categories'', PList [PStr (py_str ''cs.LG'')]),
                     (py_str ''published'', PStr (py_str ''2020-06-19T17:24:44+00:00''))])]])
   \<and> chunk_papers_from_metadata ([sample_paper] @ sample_paper_without_abstract # []) True 1200 120 =
       chunk_papers_from_metadata ([sample_paper] @ []) True 1200 120"
proof -
  have a: "dict_get sample_paper ''abstract'' = Some (PStr (replicate 500 97))"
    by (simp add: dict_get_def sample_paper_def py_str_def)
  have b: "dict_get sample_paper_without_abstract ''abstract'' = None"
    by (simp add: dict_get_def sample_paper_without_abstract_def py_str_def)
  have c: "dict_get_default sample_paper ''arxiv_id'' (PStr []) = PStr (py_str ''2006.11239v2'')"
    "dict_get_default sample_paper ''title'' (PStr []) =
       PStr (py_str ''Denoising Diffusion Probabilistic Models'')"
    "dict_get_default sample_paper ''authors'' (PList []) =
       PList [PStr (py_str ''Jonathan Ho''), PStr (py_str ''Ajay Jain'')]"
    "dict_get_default sample_paper ''categories'' (PList []) = PList [PStr (py_str ''cs.LG'')]"
    "dict_get_default sample_paper ''published'' (PStr []) =
       PStr (py_str ''2020-06-19T17:24:44+00:00'')"
    by (simp_all add: dict_get_default_def dict_get_def sample_paper_def py_str_def)
  from a b
    abstract_packaging [of sample_paper "replicate 500 97" 120 sample_paper_without_abstract
      True 1200 120 "[sample_paper]" "[]"]
  show ?thesis by (simp add: c)
qed

lemma card_relevant_remdups:
  "card (set xs \<inter> R) = length (filter (\<lambda>x. x \<in> R) (remdups xs))"
proof -
  have "set (filter (\<lambda>x. x \<in> R) (remdups xs)) = set xs \<inter> R" by auto
  moreover have "distinct (filter (\<lambda>x. x \<in> R) (remdups xs))" by simp
  ultimately show ?thesis by (metis distinct_card)
qed

lemma py_slice_prefix_all: "int (length xs) \<le> k \<Longrightarrow> py_slice xs 0 k = xs"
  by (simp add: py_slice_def slice_bound_def)

lemma py_str_letters:
  "py_str ''a'' \<noteq> py_str ''b''" "py_str ''a'' \<noteq> py_str ''c''" "py_str ''a'' \<noteq> py_str ''d''"
  "py_str ''a'' \<noteq> py_str ''e''" "py_str ''a'' \<noteq> py_str ''z''" "py_str ''b'' \<noteq> py_str ''c''"
  "py_str ''b'' \<noteq> py_str ''d''" "py_str ''b'' \<noteq> py_str ''e''" "py_str ''b'' \<noteq> py_str ''z''"
  "py_str ''c'' \<noteq> py_str ''d''" "py_str ''c'' \<noteq> py_str ''e''" "py_str ''c'' \<noteq> py_str ''z''"
  "py_str ''d'' \<noteq> py_str ''e''" "py_str ''d'' \<noteq> py_str ''z''" "py_str ''e'' \<noteq> py_str ''z''"
  by (simp_all add: py_str_def)

lemma precision_remdups:
  "compute_precision_at_k retrieved_ids relevant_ids k =
     (if py_slice retrieved_ids 0 k = [] then 0
      else of_nat (length (filter (\<lambda>x. x \<in> relevant_ids) (remdups (py_slice retrieved_ids 0 k))))
           / of_nat (length (remdups (py_slice retrieved_ids 0 k))))"
  by (simp add: compute_precision_at_k_def Let_def card_relevant_remdups length_remdups_card_conv)

text \<open>
  Claim C3, amended.  Precision@k is 0 when \<open>retrieved_ids[:k]\<close> is empty; otherwise it is
  the number of distinct relevant ids in that slice divided by the number of distinct ids in
  it, because both counts are taken on \<open>set(retrieved_ids[:k])\<close>.  The denominator is the
  length of the slice exactly when the slice has no repeated id, as in the example with five
  different ids, two of them relevant, and \<open>k = 5\<close>: the result is \<open>2 / 5\<close>.
\<close>

theorem precision_counts_distinct_ids:
  "compute_precision_at_k retrieved_ids relevant_ids k =
     (if py_slice retrieved_ids 0 k = [] then 0
      else of_nat (length (filter (\<lambda>x. x \<in> relevant_ids) (remdups (py_slice retrieved_ids 0 k))))
           / of_nat (length (remdups (py_slice retrieved_ids 0 k))))
   \<and> (py_slice retrieved_ids 0 k \<noteq> [] \<longrightarrow> distinct (py_slice retrieved_ids 0 k) \<longrightarrow>
        compute_precision_at_k retrieved_ids relevant_ids k =
          of_nat (length (filter (\<lambda>x. x \<in> relevant_ids) (py_slice retrieved_ids 0 k)))
          / of_nat (length (py_slice retrieved_ids 0 k)))
   \<and> compute_precision_at_k
         [py_str ''a'', py_str ''b'', py_str ''c'', py_str ''d'', py_str ''e'']
         {py_str ''b'', py_str ''d'', py_str ''z''} 5 = 2 / 5"
proof (intro conjI impI)
  show general: "compute_precision_at_k retrieved_ids relevant_ids k =
     (if py_slice retrieved_ids 0 k = [] then 0
      else of_nat (length (filter (\<lambda>x. x \<in> relevant_ids) (remdups (py_slice retrieved_ids 0 k))))
           / of_nat (length (remdups (py_slice retrieved_ids 0 k))))"
    by (rule precision_remdups)
  {
    assume "py_slice retrieved_ids 0 k \<noteq> []" and "distinct (py_slice retrieved_ids 0 k)"
    then show "compute_precision_at_k retrieved_ids relevant_ids k =
          of_nat (length (filter (\<lambda>x. x \<in> relevant_ids) (py_slice retrieved_ids 0 k)))
          / of_nat (length (py_slice retrieved_ids 0 k))"
      by (simp add: general distinct_remdups_id)
  }
  have slice: "py_slice [py_str ''a'', py_str ''b'', py_str ''c'', py_str ''d'', py_str ''e''] 0 5 =
      [py_str ''a'', py_str ''b'', py_str ''c'', py_str ''d'', py_str ''e'']"
    by (rule py_slice_prefix_all) simp
  show "compute_precision_at_k
         [py_str ''a'', py_str ''b'', py_str ''c'', py_str ''d'', py_str ''e'']
         {py_str ''b'', py_str ''d'', py_str ''z''} 5 = 2 / 5"
    unfolding precision_remdups slice using py_str_letters by simp
qed

text \<open>The amended C3 on a slice without repetition: three different ids, one relevant.\<close>

theorem precision_counts_distinct_ids_witness:
  "py_slice [py_str ''a'', py_str ''b'', py_str ''c''] 0 3 \<noteq> []
   \<and> distinct (py_slice [py_str ''a'', py_str ''b'', py_str ''c''] 0 3)
   \<and> compute_precision_at_k [py_str ''a'', py_str ''b'', py_str ''c''] {py_str ''b''} 3 = 1 / 3"
proof -
  have slice: "py_slice [py_str ''a'', py_str ''b'', py_str ''c''] 0 3 =
      [py_str ''a'', py_str ''b'', py_str ''c'']"
    by (rule py_slice_prefix_all) simp
  from precision_counts_distinct_ids
         [of "[py_str ''a'', py_str ''b'', py_str ''c'']" "{py_str ''b''}" 3]
  show ?thesis unfolding slice using py_str_letters by simp
qed

text \<open>
  Claim C3 as stated fails when an id is repeated in the slice: for the retrieved ids
  \<open>a, b, b\<close> with \<open>a\<close> relevant and \<open>k = 3\<close> the function returns \<open>1 / 2\<close>, while one relevant
  id over the slice length 3 is \<open>1 / 3\<close>.
\<close>

theorem precision_slice_length_counterexample:
  "compute_precision_at_k [py_str ''a'', py_str ''b'', py_str ''b''] {py_str ''a''} 3 = 1 / 2
   \<and> (of_nat (length (filter (\<lambda>x. x \<in> {py_str ''a''})
                  (py_slice [py_str ''a'', py_str ''b'', py_str ''b''] 0 3)))
        / of_nat (length (py_slice [py_str ''a'', py_str ''b'', py_str ''b''] 0 3)) :: rat) = 1 / 3"
proof -
  have slice: "py_slice [py_str ''a'', py_str ''b'', py_str ''b''] 0 3 =
      [py_str ''a'', py_str ''b'', py_str ''b'']"
    by (rule py_slice_prefix_all) simp
  show ?thesis
    unfolding compute_precision_at_k_def slice using py_str_letters by (simp add: Let_def)
qed



lemma parse_lines_append:
  "parse_lines loads ls acc = Inr res \<Longrightarrow>
     parse_lines loads (ls @ ls') acc = parse_lines loads ls' res"
  by (induction ls arbitrary: acc) (auto simp: Let_def split: sum.splits if_splits)





text \<open>
  Claim C6.  On a store as the constructor leaves it, \<open>search\<close> raises the \<open>ValueError\<close>
  "Index not built. Call build_index() first." and returns no result, for every query and
  every \<open>k\<close>; a \<open>build_index\<close> call with no chunks changes nothing about that.
\<close>

theorem search_before_build_fails:
  assumes "FAISSStore ext name = Inr fresh"
  shows "FAISSStore_search ext fresh query k =
           Inl (ValueError ''Index not built. Call build_index() first.'')
         \<and> FAISSStore_build_index ext fresh [] = (fresh, None)"
  using assms
  by (auto simp: FAISSStore_def FAISSStore_search_def FAISSStore_build_index_def
      split: sum.splits)

text \<open>C6 for the store of the small installation and the query \<open>diffusion models\<close>.\<close>

theorem search_before_build_fails_witness:
  "FAISSStore sample_externals ''all-MiniLM-L6-v2'' =
     Inr \<lparr>model_name = ''all-MiniLM-L6-v2'', index = None, metadata = [], dimension = 1\<rparr>
   \<and> FAISSStore_search sample_externals
        \<lparr>model_name = ''all-MiniLM-L6-v2'', index = None, metadata = [], dimension = 1\<rparr>
        (py_str ''diffusion models'') 5 =
      Inl (ValueError ''Index not built. Call build_index() first.'')"
proof -
  have made: "FAISSStore sample_externals ''all-MiniLM-L6-v2'' =
     Inr \<lparr>model_name = ''all-MiniLM-L6-v2'', index = None, metadata = [], dimension = 1\<rparr>"
    by (simp add: FAISSStore_def sample_externals_def)
  from search_before_build_fails [OF made] made show ?thesis by blast
qed









lemma path_join_inject [simp]: "path_join dir a = path_join dir b \<longleftrightarrow> a = b"
  by (simp add: path_join_def)


lemma py_str_inject [simp]: "py_str a = py_str b \<longleftrightarrow> a = b"
proof -
  have "inj (of_char :: char \<Rightarrow> nat)" by (simp add: inj_def)
  then show ?thesis by (simp add: py_str_def inj_map_eq_map)
qed





















lemma search_log_is_load_log:
  assumes "store self = None"
  shows "fst (snd (Retriever_search ext fs self query k)) =
           fst (snd (Retriever_load_index ext fs self))"
    and "fst (Retriever_search ext fs self query k) = fst (Retriever_load_index ext fs self)"
  using assms
  by (auto simp: Retriever_search_def split: prod.splits option.splits)
























lemma queries_differ: "py_str ''attention mechanisms'' \<noteq> py_str ''diffusion models''"
  by simp







end
